theory Spec2Isabelle
  imports Complex_Main
begin

section \<open>The ZOOpt tuning example: data model\<close>

text \<open>
  The development embeds the code cells of
  \<^verbatim>\<open>doc/source/tune/examples/zoopt_example.ipynb\<close>.

  Python values that occur in a configuration are integers (\<open>steps\<close>, \<open>width\<close>,
  \<open>layers\<close>), floats (\<open>height\<close>) and strings (\<open>activation\<close>). Floats are
  modelled as exact reals: rounding and overflow of IEEE doubles are outside the model.
\<close>

datatype pyval = PyInt int | PyFloat real | PyStr string

datatype py_error = KeyError string | TypeError | ZeroDivisionError

text \<open>A configuration is a Python dict from parameter names to values.\<close>

type_synonym config = "string \<rightharpoonup> pyval"

text \<open>
  The keyword arguments of one \<^verbatim>\<open>tune.report(iterations=step, mean_loss=score)\<close> call.
\<close>

record report =
  iterations :: int
  mean_loss :: real

text \<open>
  What a running trial can affect: the time it has spent in \<^verbatim>\<open>time.sleep\<close>
  (seconds) and the stream of results it has reported to the orchestrator.
\<close>

record session =
  slept :: real
  reported :: "report list"

definition fresh_session :: session where
  "fresh_session = \<lparr>slept = 0, reported = []\<rparr>"

section \<open>Python primitives used by the cells\<close>

text \<open>
  An arithmetic operand: \<^verbatim>\<open>int\<close> and \<^verbatim>\<open>float\<close> are numbers; a
  \<^verbatim>\<open>str\<close> in \<^verbatim>\<open>width * step / 100\<close> or in \<^verbatim>\<open>height * 0.1\<close> ends in
  a TypeError. An int is read as a real of any size: Python raises OverflowError when an
  int beyond the range of a double meets a float, and the model has no such outcome.
\<close>

fun as_number :: "pyval \<Rightarrow> py_error + real" where
  "as_number (PyInt i) = Inr (of_int i)"
| "as_number (PyFloat x) = Inr x"
| "as_number (PyStr s) = Inl TypeError"

text \<open>
  \<^verbatim>\<open>x ** n\<close> for a float \<open>x\<close> and an int \<open>n\<close>: Python raises
  \<^verbatim>\<open>ZeroDivisionError: 0.0 cannot be raised to a negative power\<close>.
\<close>

definition py_pow :: "real \<Rightarrow> int \<Rightarrow> py_error + real" where
  "py_pow x n = (if x = 0 \<and> n < 0 then Inl ZeroDivisionError else Inr (x powi n))"

text \<open>\<^verbatim>\<open>time.sleep(d)\<close>\<close>

definition sleep :: "real \<Rightarrow> session \<Rightarrow> session" where
  "sleep d s = s\<lparr>slept := slept s + d\<rparr>"

text \<open>\<^verbatim>\<open>range(n)\<close>: empty when \<open>n \<le> 0\<close>.\<close>

definition py_range :: "int \<Rightarrow> int list" where
  "py_range n = [0..n - 1]"

text \<open>\<^verbatim>\<open>config[k]\<close>\<close>

definition getitem :: "config \<Rightarrow> string \<Rightarrow> py_error + pyval" where
  "getitem cfg k = (case cfg k of None \<Rightarrow> Inl (KeyError k) | Some v \<Rightarrow> Inr v)"

text \<open>
  Modelled from the spec: \<^verbatim>\<open>tune.report\<close> is a function of the tuning library, which
  is not among the sources. The spec describes a trial result as "a stream of reported
  scalar metrics (e.g., an iteration index and a loss value) produced incrementally" and
  the channel as one-way, so reporting appends one record to the stream.
\<close>

definition tune_report :: "int \<Rightarrow> real \<Rightarrow> session \<Rightarrow> session" where
  "tune_report step score s =
     s\<lparr>reported := reported s @ [\<lparr>iterations = step, mean_loss = score\<rparr>]\<rparr>"

section \<open>The cells \<open>evaluate\<close> and \<open>objective\<close>\<close>

text \<open>
  \<^verbatim>\<open>
  def evaluate(step, width, height):
      time.sleep(0.1)
      return (0.1 + width * step / 100) ** (-1) + height * 0.1
  \<close>
  The sleep comes first, so it has happened also when the expression raises. The
  operands are evaluated left to right: the power before \<^verbatim>\<open>height * 0.1\<close>. The
  arithmetic is that of the reals: it agrees with the code up to the rounding of floats
  on the ranges of the runs, and can differ from it where a float product rounds the base
  to zero or an int is too large for a double.
\<close>

definition evaluate ::
  "pyval \<Rightarrow> pyval \<Rightarrow> pyval \<Rightarrow> session \<Rightarrow> (py_error + real) \<times> session" where
  "evaluate step width height s =
     (let s' = sleep (1 / 10) s in
      (case as_number width of
         Inl e \<Rightarrow> Inl e
       | Inr w \<Rightarrow>
          (case as_number step of
             Inl e \<Rightarrow> Inl e
           | Inr t \<Rightarrow>
              (case py_pow (1 / 10 + w * t / 100) (- 1) of
                 Inl e \<Rightarrow> Inl e
               | Inr p \<Rightarrow>
                  (case as_number height of
                     Inl e \<Rightarrow> Inl e
                   | Inr h \<Rightarrow> Inr (p + h * (1 / 10))))),
       s'))"

text \<open>
  \<^verbatim>\<open>
  def objective(config):
      for step in range(config["steps"]):
          score = evaluate(step, config["width"], config["height"])
          tune.report(iterations=step, mean_loss=score)
  \<close>
  The loop body, over the steps still to run. An exception ends the loop at once.
\<close>

fun objective_loop ::
  "int list \<Rightarrow> config \<Rightarrow> session \<Rightarrow> (py_error + unit) \<times> session" where
  "objective_loop [] cfg s = (Inr (), s)"
| "objective_loop (step # rest) cfg s =
     (case getitem cfg ''width'' of
        Inl e \<Rightarrow> (Inl e, s)
      | Inr width \<Rightarrow>
         (case getitem cfg ''height'' of
            Inl e \<Rightarrow> (Inl e, s)
          | Inr height \<Rightarrow>
             (case evaluate (PyInt step) width height s of
                (Inl e, s') \<Rightarrow> (Inl e, s')
              | (Inr score, s') \<Rightarrow> objective_loop rest cfg (tune_report step score s'))))"

text \<open>\<^verbatim>\<open>range\<close> accepts an int only: a float or a string is a TypeError.\<close>

definition objective :: "config \<Rightarrow> session \<Rightarrow> (py_error + unit) \<times> session" where
  "objective cfg s =
     (case getitem cfg ''steps'' of
        Inl e \<Rightarrow> (Inl e, s)
      | Inr (PyInt n) \<Rightarrow> objective_loop (py_range n) cfg s
      | Inr _ \<Rightarrow> (Inl TypeError, s))"

section \<open>The search space, budget and search algorithm cells\<close>

text \<open>
  The inline descriptors of Tune that the notebook uses: a plain value,
  \<^verbatim>\<open>tune.randint(lower, upper)\<close>, \<^verbatim>\<open>tune.quniform(lower, upper, q)\<close> and
  \<^verbatim>\<open>tune.choice(categories)\<close>.
\<close>

datatype domain =
    Constant pyval
  | Randint int int
  | Quniform real real real
  | Choice "pyval list"

text \<open>
  \<^verbatim>\<open>
  search_config = {
      "steps": 100,
      "width": tune.randint(0, 10),
      "height": tune.quniform(-10, 10, 1e-2),
      "activation": tune.choice(["relu, tanh"])
  }
  \<close>
  A dict literal keeps its order, so it is an association list.
\<close>

definition search_config :: "(string \<times> domain) list" where
  "search_config =
     [(''steps'', Constant (PyInt 100)),
      (''width'', Randint 0 10),
      (''height'', Quniform (- 10) 10 (1 / 100)),
      (''activation'', Choice [PyStr ''relu, tanh''])]"

text \<open>
  Two cells assign \<^verbatim>\<open>num_samples\<close> one after the other,
  \<^verbatim>\<open>num_samples = 1000\<close> and then \<^verbatim>\<open>num_samples = 10\<close> (the override for
  smoke tests); every later cell reads the second value.
\<close>

definition num_samples :: nat where
  "num_samples = (let n = 1000::nat; n = 10 in n)"

text \<open>
  The dimension triples of ZOOpt: \<^verbatim>\<open>(ValueType.CONTINUOUS, [lo, hi], precision)\<close>,
  \<^verbatim>\<open>(ValueType.DISCRETE, [lo, hi], has_order)\<close> and
  \<^verbatim>\<open>(ValueType.GRID, grid_list)\<close>.
\<close>

datatype dim =
    Continuous real real real
  | Discrete int int bool
  | Grid "pyval list"

text \<open>
  The keyword arguments a \<^verbatim>\<open>ZOOptSearch\<close> is built from; an argument the call
  leaves out is \<open>None\<close>.
\<close>

record zoopt_search =
  zo_algo :: string
  zo_budget :: nat
  zo_dim_dict :: "(string \<times> dim) list option"
  zo_parallel_num :: nat
  zo_metric :: "string option"
  zo_mode :: "string option"

text \<open>
  \<^verbatim>\<open>
  zoopt_config = {"parallel_num": 8}
  algo = ZOOptSearch(algo="Asracos", budget=num_samples, **zoopt_config)
  \<close>
\<close>

definition algo :: zoopt_search where
  "algo = \<lparr>zo_algo = ''Asracos'', zo_budget = num_samples, zo_dim_dict = None,
           zo_parallel_num = 8, zo_metric = None, zo_mode = None\<rparr>"

text \<open>
  \<^verbatim>\<open>
  space = {
      "height": (ValueType.CONTINUOUS, [-10, 10], 1e-2),
      "width": (ValueType.DISCRETE, [0, 10], True),
      "layers": (ValueType.GRID, [4, 8, 16])
  }
  \<close>
\<close>

definition space :: "(string \<times> dim) list" where
  "space =
     [(''height'', Continuous (- 10) 10 (1 / 100)),
      (''width'', Discrete 0 10 True),
      (''layers'', Grid [PyInt 4, PyInt 8, PyInt 16])]"

text \<open>
  The second assignment to \<^verbatim>\<open>algo\<close>:
  \<^verbatim>\<open>
  zoopt_search_config = {"parallel_num": 8, "metric": "mean_loss", "mode": "min"}
  algo = ZOOptSearch(algo="Asracos", budget=num_samples, dim_dict=space,
                     **zoopt_search_config)
  \<close>
\<close>

definition algo_space :: zoopt_search where
  "algo_space = \<lparr>zo_algo = ''Asracos'', zo_budget = num_samples, zo_dim_dict = Some space,
           zo_parallel_num = 8, zo_metric = Some ''mean_loss'', zo_mode = Some ''min''\<rparr>"

section \<open>The two \<open>tune.run\<close> cells\<close>

text \<open>The arguments of a \<^verbatim>\<open>tune.run(objective, ...)\<close> call.\<close>

record tune_run_args =
  run_search_alg :: zoopt_search
  run_metric :: string
  run_mode :: string
  run_name :: string
  run_num_samples :: nat
  run_config :: "(string \<times> domain) list"

text \<open>
  \<^verbatim>\<open>
  analysis = tune.run(objective, search_alg=algo, metric="mean_loss", mode="min",
                      name="zoopt_exp", num_samples=num_samples, config=search_config)
  \<close>
\<close>

definition first_run :: tune_run_args where
  "first_run = \<lparr>run_search_alg = algo, run_metric = ''mean_loss'', run_mode = ''min'',
                 run_name = ''zoopt_exp'', run_num_samples = num_samples,
                 run_config = search_config\<rparr>"

text \<open>
  \<^verbatim>\<open>
  analysis = tune.run(objective, search_alg=algo, metric="mean_loss", mode="min",
                      name="zoopt_exp", num_samples=num_samples, config={"steps": 100})
  \<close>
  with \<^verbatim>\<open>algo\<close> the searcher built from \<^verbatim>\<open>space\<close>.
\<close>

definition second_run :: tune_run_args where
  "second_run = \<lparr>run_search_alg = algo_space, run_metric = ''mean_loss'', run_mode = ''min'',
                 run_name = ''zoopt_exp'', run_num_samples = num_samples,
                 run_config = [(''steps'', Constant (PyInt 100))]\<rparr>"

text \<open>The dimensions a run hands to the search algorithm itself: none without a \<^verbatim>\<open>dim_dict\<close>.\<close>

definition declared_dims :: "tune_run_args \<Rightarrow> (string \<times> dim) list" where
  "declared_dims run = (case zo_dim_dict (run_search_alg run) of None \<Rightarrow> [] | Some d \<Rightarrow> d)"

section \<open>The orchestration around the cells\<close>

text \<open>
  Modelled from the spec: what a value drawn from an inline descriptor can be. The sampling
  code of the tuning library is not among the sources. The spec names the descriptors
  "integer range, quantized uniform range, categorical choice" and gives the example space
  as "width in [0,10] integer, height in [-10,10] step 0.01"; the ranges are closed as the
  spec writes them, and a quantized value is a whole multiple of the step.
\<close>

fun in_domain :: "domain \<Rightarrow> pyval \<Rightarrow> bool" where
  "in_domain (Constant c) v = (v = c)"
| "in_domain (Randint lo hi) v =
     (case v of PyInt i \<Rightarrow> lo \<le> i \<and> i \<le> hi | _ \<Rightarrow> False)"
| "in_domain (Quniform lo hi q) v =
     (case v of PyFloat x \<Rightarrow> lo \<le> x \<and> x \<le> hi \<and> of_int \<lfloor>x / q\<rfloor> = x / q | _ \<Rightarrow> False)"
| "in_domain (Choice cs) v = (v \<in> set cs)"

text \<open>
  Modelled from the spec: what a value the search algorithm resolves for one of its own
  dimensions can be. The search algorithm is not among the sources. The spec lists
  "continuous (range, precision), discrete (range, ordered-flag), or grid (explicit value
  list)".
\<close>

fun in_dim :: "dim \<Rightarrow> pyval \<Rightarrow> bool" where
  "in_dim (Continuous lo hi precision) v =
     (case v of PyFloat x \<Rightarrow> lo \<le> x \<and> x \<le> hi | _ \<Rightarrow> False)"
| "in_dim (Discrete lo hi has_order) v =
     (case v of PyInt i \<Rightarrow> lo \<le> i \<and> i \<le> hi | _ \<Rightarrow> False)"
| "in_dim (Grid vs) v = (v \<in> set vs)"

text \<open>A configuration gives the parameter of a declaration a value its descriptor allows.\<close>

definition assigns :: "('d \<Rightarrow> pyval \<Rightarrow> bool) \<Rightarrow> config \<Rightarrow> string \<times> 'd \<Rightarrow> bool" where
  "assigns member cfg kd = (case cfg (fst kd) of None \<Rightarrow> False | Some v \<Rightarrow> member (snd kd) v)"

text \<open>
  Modelled from the spec: a configuration sampled from an inline search space. The
  sampling code is not among the sources; by the spec a configuration is "a mapping from
  parameter name to value", here with exactly the declared names.
\<close>

definition sampled_from :: "(string \<times> domain) list \<Rightarrow> config \<Rightarrow> bool" where
  "sampled_from sp cfg = (dom cfg = set (map fst sp) \<and> list_all (assigns in_domain cfg) sp)"

text \<open>
  Modelled from the spec: the resolved configuration of a trial of a run. The code that
  resolves it is not among the sources. By the spec every parameter is "either supplied
  directly in the trial's search space or pre-resolved by the search algorithm": each
  parameter declared inline has a value its descriptor allows, and each dimension of the
  search algorithm a value of that dimension.
\<close>

definition resolved :: "tune_run_args \<Rightarrow> config \<Rightarrow> bool" where
  "resolved run cfg =
     (list_all (assigns in_domain cfg) (run_config run)
      \<and> list_all (assigns in_dim cfg) (declared_dims run))"

text \<open>
  Modelled from the spec: a trial, "one evaluation of the objective function under a
  specific configuration", with its result, "a stream of reported scalar metrics". The
  engine that runs trials is not among the sources.
\<close>

record trial =
  trial_config :: config
  trial_results :: "report list"
  trial_error :: "py_error option"

definition run_trial :: "config \<Rightarrow> trial" where
  "run_trial cfg =
     (case objective cfg fresh_session of
        (r, s) \<Rightarrow> \<lparr>trial_config = cfg, trial_results = reported s,
                   trial_error = (case r of Inl e \<Rightarrow> Some e | Inr u \<Rightarrow> None)\<rparr>)"

text \<open>The value a report holds for a metric name.\<close>

definition metric_of :: "string \<Rightarrow> report \<Rightarrow> real option" where
  "metric_of m r =
     (if m = ''mean_loss'' then Some (mean_loss r)
      else if m = ''iterations'' then Some (of_int (iterations r))
      else None)"

text \<open>
  Modelled from the spec: the score of a trial is the metric of its last report (the
  example scenario expects "a reported score consistent with the formula evaluated at the
  final step"); a trial that reported nothing has none.
\<close>

definition last_result :: "string \<Rightarrow> trial \<Rightarrow> real option" where
  "last_result m t =
     (if trial_results t = [] then None else metric_of m (last (trial_results t)))"

definition better :: "string \<Rightarrow> real \<Rightarrow> real \<Rightarrow> bool" where
  "better mode a b = (if mode = ''max'' then b \<le> a else a \<le> b)"

text \<open>
  Modelled from the spec: the analysis summary, "the best configuration found, keyed by a
  user-chosen metric and optimization mode (minimize/maximize)". The analysis code is not
  among the sources.
\<close>

fun best_trial :: "string \<Rightarrow> string \<Rightarrow> trial list \<Rightarrow> trial option" where
  "best_trial m mode [] = None"
| "best_trial m mode (t # ts) =
     (case last_result m t of
        None \<Rightarrow> best_trial m mode ts
      | Some v \<Rightarrow>
         (case best_trial m mode ts of
            None \<Rightarrow> Some t
          | Some b \<Rightarrow>
             (case last_result m b of
                None \<Rightarrow> Some t
              | Some vb \<Rightarrow> if better mode v vb then Some t else Some b)))"

definition best_config :: "tune_run_args \<Rightarrow> trial list \<Rightarrow> config option" where
  "best_config run trials =
     map_option trial_config (best_trial (run_metric run) (run_mode run) trials)"

section \<open>Example configurations\<close>

text \<open>
  Configurations of the runs, used to instantiate the theorems below: \<open>cfg_a\<close> and
  \<open>cfg_c\<close> of the first run, \<open>cfg_b\<close> of the second.
\<close>

definition cfg_a :: config where
  "cfg_a = [''steps'' \<mapsto> PyInt 100, ''width'' \<mapsto> PyInt 3, ''height'' \<mapsto> PyFloat (5 / 2),
            ''activation'' \<mapsto> PyStr ''relu, tanh'']"

definition cfg_b :: config where
  "cfg_b = [''steps'' \<mapsto> PyInt 100, ''height'' \<mapsto> PyFloat (5 / 2), ''width'' \<mapsto> PyInt 3,
            ''layers'' \<mapsto> PyInt 8]"

definition cfg_c :: config where
  "cfg_c = [''steps'' \<mapsto> PyInt 100, ''width'' \<mapsto> PyInt 10, ''height'' \<mapsto> PyFloat (- 10),
            ''activation'' \<mapsto> PyStr ''relu, tanh'']"

section \<open>Properties of \<open>evaluate\<close>\<close>

text \<open>
  The session after \<open>evaluate\<close> is the session before it with the delay added, whatever
  the arguments; the value does not depend on the session.
\<close>

lemma evaluate_session: "snd (evaluate step width height s) = sleep (1 / 10) s"
  by (simp add: evaluate_def Let_def)

lemma evaluate_value_indep:
  "fst (evaluate step width height s) = fst (evaluate step width height s')"
  by (simp add: evaluate_def Let_def)

lemma evaluate_numeric:
  assumes "as_number step = Inr t" and "as_number width = Inr w"
    and "as_number height = Inr h" and "1 / 10 + w * t / 100 \<noteq> 0"
  shows "evaluate step width height s =
           (Inr (inverse (1 / 10 + w * t / 100) + h * (1 / 10)), sleep (1 / 10) s)"
  using assms by (simp add: evaluate_def Let_def py_pow_def power_int_minus)

lemma evaluate_error_kinds:
  assumes "fst (evaluate step width height s) = Inl e"
  shows "e = TypeError \<or> e = ZeroDivisionError"
  using assms
  by (cases step; cases width; cases height)
     (auto simp add: evaluate_def Let_def py_pow_def split: if_splits)

text \<open>
  Claim C1, as amended. For integers \<open>step\<close> and \<open>width\<close> and a number \<open>height\<close>,
  with \<open>width * step\<close> and \<open>height\<close> of magnitude at most \<open>10 ^ 300\<close>, \<open>evaluate\<close>
  returns \<open>(0.1 + width * step / 100) ** (-1) + height * 0.1\<close> whenever
  \<open>width * step\<close> is not \<open>-10\<close>, and raises ZeroDivisionError when it is \<open>-10\<close>,
  where the base \<open>0.1 + width * step / 100\<close> is zero. Its only effect is the delay of 0.1
  seconds: the reported results are untouched, and the value is the same in every session.

  The hypotheses keep to the arguments on which Python and the model end the same way.
  With integers the product is exact, and its quotient by 100 is the double next to
  \<open>-0.1\<close> only when the product is \<open>-10\<close>, so the float base is zero exactly when the
  real one is; with a float \<open>width\<close> or \<open>step\<close> the product can round to \<open>-10\<close>. The
  bounds keep every conversion of an int to a float inside the range of a double, where
  Python raises no OverflowError. The value returned is read up to the rounding of
  floats.
\<close>

theorem evaluate_formula:
  assumes "\<bar>w * t\<bar> \<le> 10 ^ 300"
    and "as_number height = Inr h" and "\<bar>h\<bar> \<le> 10 ^ 300"
  shows "fst (evaluate (PyInt t) (PyInt w) height s) =
           (if w * t = - 10 then Inl ZeroDivisionError
            else Inr ((1 / 10 + of_int w * of_int t / 100) powi (- 1) + h * (1 / 10)))
         \<and> snd (evaluate (PyInt t) (PyInt w) height s) = s\<lparr>slept := slept s + 1 / 10\<rparr>
         \<and> fst (evaluate (PyInt t) (PyInt w) height s') = fst (evaluate (PyInt t) (PyInt w) height s)"
proof -
  have lin: "(1 / 10 + a / 100 = 0) = (a = - 10)" for a :: real
    by linarith
  have "(1 / 10 + real_of_int w * real_of_int t / 100 = 0) = (real_of_int (w * t) = - 10)"
    using lin [of "real_of_int w * real_of_int t"] by simp
  also have "\<dots> = (w * t = - 10)"
    by (metis of_int_eq_iff of_int_minus of_int_numeral)
  finally have z: "(1 / 10 + real_of_int w * real_of_int t / 100 = 0) = (w * t = - 10)" .
  show ?thesis
    using assms(2) z by (simp add: evaluate_def Let_def py_pow_def sleep_def)
qed

text \<open>
  The amended claim C1 at \<open>step = 50\<close>, \<open>width = 4\<close>, \<open>height = 2.5\<close>, where the
  base is \<open>2.1\<close> and the value \<open>10 / 21 + 1 / 4 = 61 / 84\<close>, and at \<open>step = 2\<close>,
  \<open>width = -5\<close>, \<open>height = 1\<close>, where the base is zero.
\<close>

theorem evaluate_formula_witness:
  "fst (evaluate (PyInt 50) (PyInt 4) (PyFloat (5 / 2)) fresh_session) = Inr (61 / 84)
   \<and> snd (evaluate (PyInt 50) (PyInt 4) (PyFloat (5 / 2)) fresh_session)
       = \<lparr>slept = 1 / 10, reported = []\<rparr>
   \<and> fst (evaluate (PyInt 2) (PyInt (- 5)) (PyInt 1) fresh_session) = Inl ZeroDivisionError"
  using evaluate_formula [of 4 50 "PyFloat (5 / 2)" "5 / 2" fresh_session fresh_session]
    evaluate_formula [of "- 5" 2 "PyInt 1" 1 fresh_session fresh_session]
  by (simp add: fresh_session_def power_int_minus)

text \<open>
  Claim C1 as first stated ("for every step, width and height") fails at \<open>step = 1\<close>,
  \<open>width = -10\<close>, \<open>height = 0\<close>: the base is \<open>0.1 + (-10) / 100 = 0\<close>, and
  \<open>evaluate\<close> raises instead of returning a value.
\<close>

theorem evaluate_raises_counterexample:
  "fst (evaluate (PyInt 1) (PyInt (- 10)) (PyInt 0) fresh_session) = Inl ZeroDivisionError"
  by (simp add: evaluate_def Let_def py_pow_def)

text \<open>
  Claim C9. For every number \<open>step \<ge> 0\<close> and every number \<open>width \<ge> 0\<close> the base
  \<open>0.1 + width * step / 100\<close> is at least \<open>0.1\<close>, hence positive; the power \<open>-1\<close>
  is then its inverse and \<open>evaluate\<close> never raises ZeroDivisionError, and with a numeric
  \<open>height\<close> it returns a value. Every step of a \<open>range\<close> is such a step.
\<close>

theorem evaluate_total_on_run:
  assumes "as_number step = Inr t" and "0 \<le> t"
    and "as_number width = Inr w" and "0 \<le> w"
  shows "1 / 10 \<le> 1 / 10 + w * t / 100
         \<and> 0 < 1 / 10 + w * t / 100
         \<and> py_pow (1 / 10 + w * t / 100) (- 1) = Inr (inverse (1 / 10 + w * t / 100))
         \<and> fst (evaluate step width height s) \<noteq> Inl ZeroDivisionError
         \<and> (as_number height = Inr h \<longrightarrow>
              fst (evaluate step width height s) =
                Inr (inverse (1 / 10 + w * t / 100) + h * (1 / 10)))
         \<and> (\<forall>i\<in>set (py_range n). 0 \<le> i)"
proof -
  have nn: "0 \<le> w * t / 100" using assms(2,4) by simp
  then have pos: "1 / 10 + w * t / 100 \<noteq> 0" by linarith
  have a: "py_pow (1 / 10 + w * t / 100) (- 1) = Inr (inverse (1 / 10 + w * t / 100))"
    using pos by (simp add: py_pow_def power_int_minus)
  have b: "fst (evaluate step width height s) \<noteq> Inl ZeroDivisionError"
    using assms(1,3) a by (cases height) (simp_all add: evaluate_def Let_def)
  have c: "as_number height = Inr h \<longrightarrow>
              fst (evaluate step width height s) =
                Inr (inverse (1 / 10 + w * t / 100) + h * (1 / 10))"
    using assms(1,3) pos by (simp add: evaluate_numeric)
  have d: "\<forall>i\<in>set (py_range n). 0 \<le> i" by (simp add: py_range_def)
  from nn a b c d show ?thesis by simp
qed

text \<open>
  Claim C9 at the largest step and width of the example, \<open>step = 99\<close>, \<open>width = 10\<close>,
  with \<open>height = -10\<close>: the base is \<open>10\<close> and the value \<open>0.1 - 1\<close>.
\<close>

theorem evaluate_total_on_run_witness:
  "(1::real) / 10 \<le> 1 / 10 + 10 * 99 / 100
   \<and> fst (evaluate (PyInt 99) (PyInt 10) (PyFloat (- 10)) fresh_session) = Inr (- 9 / 10)"
  using evaluate_total_on_run
    [of "PyInt 99" 99 "PyInt 10" 10 "PyFloat (- 10)" fresh_session "- 10" 100]
  by simp

section \<open>Properties of \<open>objective\<close>\<close>

text \<open>
  When \<open>evaluate\<close> returns a value at every step of the loop, the loop runs through all
  of them, sleeping once and reporting once per step, in the order of the steps.
\<close>

lemma objective_loop_ok:
  assumes "cfg ''width'' = Some width" and "cfg ''height'' = Some height"
    and "\<forall>i\<in>set steps. fst (evaluate (PyInt i) width height s0) = Inr (score i)"
  shows "objective_loop steps cfg s =
           (Inr (), s\<lparr>slept := slept s + real (length steps) / 10,
                        reported := reported s @
                          map (\<lambda>i. \<lparr>iterations = i, mean_loss = score i\<rparr>) steps\<rparr>)"
  using assms(3)
proof (induction steps arbitrary: s)
  case Nil
  show ?case by simp
next
  case (Cons i rest)
  have v: "fst (evaluate (PyInt i) width height s) = Inr (score i)"
    using Cons.prems evaluate_value_indep [of "PyInt i" width height s s0] by simp
  have e: "evaluate (PyInt i) width height s = (Inr (score i), sleep (1 / 10) s)"
    using v evaluate_session [of "PyInt i" width height s] by (simp add: prod_eq_iff)
  have r: "objective_loop rest cfg (tune_report i (score i) (sleep (1 / 10) s)) =
      (Inr (), (tune_report i (score i) (sleep (1 / 10) s))
         \<lparr>slept := slept (tune_report i (score i) (sleep (1 / 10) s)) + real (length rest) / 10,
          reported := reported (tune_report i (score i) (sleep (1 / 10) s)) @
             map (\<lambda>i. \<lparr>iterations = i, mean_loss = score i\<rparr>) rest\<rparr>)"
    using Cons.IH Cons.prems by simp
  show ?case
    using assms(1,2) e r
    by (simp add: getitem_def tune_report_def sleep_def field_simps)
qed

text \<open>
  Claim C2, as amended. For every config whose \<open>steps\<close> is an integer \<open>n\<close> and for
  which \<open>evaluate (i, width, height)\<close> returns a value at every \<open>i\<close> of \<open>range(n)\<close>,
  \<open>objective\<close> ends without an error after exactly \<open>max(n, 0)\<close> steps, and has
  reported, for \<open>i = 0, ..., n - 1\<close> in increasing order, the pair of \<open>iterations = i\<close>
  and \<open>mean_loss = evaluate (i, width, height)\<close>. Beside the delays, these reports are
  all it does to the session.
\<close>

theorem objective_reports_each_step:
  assumes "cfg ''steps'' = Some (PyInt n)"
    and "cfg ''width'' = Some width" and "cfg ''height'' = Some height"
    and "\<forall>i\<in>{0..<n}. fst (evaluate (PyInt i) width height s) = Inr (score i)"
  shows "objective cfg s =
           (Inr (), s\<lparr>slept := slept s + real (nat n) / 10,
                        reported := reported s @
                          map (\<lambda>i. \<lparr>iterations = i, mean_loss = score i\<rparr>) [0..n - 1]\<rparr>)"
proof -
  have "\<forall>i\<in>set (py_range n). fst (evaluate (PyInt i) width height s) = Inr (score i)"
    using assms(4) by (simp add: py_range_def)
  from objective_loop_ok [OF assms(2,3) this, of s] assms(1) show ?thesis
    by (simp add: objective_def getitem_def py_range_def)
qed

text \<open>
  The amended claim C2 at \<open>steps = 3\<close>, \<open>width = 10\<close>, \<open>height = 2.5\<close>.
\<close>

theorem objective_reports_each_step_witness:
  "objective [''steps'' \<mapsto> PyInt 3, ''width'' \<mapsto> PyInt 10, ''height'' \<mapsto> PyFloat (5 / 2)]
      fresh_session =
     (Inr (), \<lparr>slept = 3 / 10,
               reported = [\<lparr>iterations = 0, mean_loss = 41 / 4\<rparr>,
                           \<lparr>iterations = 1, mean_loss = 21 / 4\<rparr>,
                           \<lparr>iterations = 2, mean_loss = 43 / 12\<rparr>]\<rparr>)"
proof -
  have up: "[0..2::int] = [0, 1, 2]" by code_simp
  have s: "{0..<3::int} = {0, 1, 2}" by auto
  show ?thesis
    using objective_reports_each_step
      [of "[''steps'' \<mapsto> PyInt 3, ''width'' \<mapsto> PyInt 10, ''height'' \<mapsto> PyFloat (5 / 2)]"
          3 "PyInt 10" "PyFloat (5 / 2)" fresh_session
          "\<lambda>i. inverse (1 / 10 + 10 * real_of_int i / 100) + 5 / 2 * (1 / 10)"]
    by (simp add: s up fresh_session_def evaluate_def Let_def py_pow_def power_int_minus)
qed

text \<open>
  Claim C2 as first stated ("for every config containing the three keys") fails at
  \<open>steps = 2\<close>, \<open>width = -10\<close>, \<open>height = 0\<close>: step \<open>0\<close> reports \<open>10\<close>, at step
  \<open>1\<close> the base is zero and the ZeroDivisionError ends the loop, so one step is
  reported and not two.
\<close>

theorem objective_stops_counterexample:
  "objective [''steps'' \<mapsto> PyInt 2, ''width'' \<mapsto> PyInt (- 10), ''height'' \<mapsto> PyInt 0]
      fresh_session =
     (Inl ZeroDivisionError,
      \<lparr>slept = 1 / 5, reported = [\<lparr>iterations = 0, mean_loss = 10\<rparr>]\<rparr>)"
proof -
  have up: "[0..1::int] = [0, 1]" by code_simp
  show ?thesis
    by (simp add: objective_def getitem_def py_range_def up evaluate_def Let_def py_pow_def
        power_int_minus tune_report_def sleep_def fresh_session_def)
qed

text \<open>
  \<open>objective\<close> reads the keys \<open>steps\<close>, \<open>width\<close> and \<open>height\<close> and no other: the
  value of any other key, or its absence, changes nothing.
\<close>

lemma objective_loop_ignores:
  assumes "k \<noteq> ''width''" and "k \<noteq> ''height''"
  shows "objective_loop steps (cfg(k := a)) s = objective_loop steps cfg s"
proof (induction steps arbitrary: s)
  case Nil
  show ?case by simp
next
  case (Cons i rest)
  show ?case using assms Cons.IH
    by (simp add: getitem_def split: option.splits sum.splits prod.splits)
qed

lemma objective_ignores:
  assumes "k \<noteq> ''steps''" and "k \<noteq> ''width''" and "k \<noteq> ''height''"
  shows "objective (cfg(k := a)) s = objective cfg s"
  using assms objective_loop_ignores [of k]
  by (simp add: objective_def getitem_def split: option.splits pyval.splits)

text \<open>
  A KeyError of \<open>objective\<close> names one of the three keys it reads, and that key is
  missing from the configuration.
\<close>

lemma objective_loop_KeyError:
  assumes "fst (objective_loop steps cfg s) = Inl (KeyError k)"
  shows "(k = ''width'' \<or> k = ''height'') \<and> cfg k = None"
  using assms
proof (induction steps arbitrary: s)
  case Nil
  then show ?case by simp
next
  case (Cons i rest)
  show ?case
  proof (cases "cfg ''width''")
    case None
    with Cons.prems show ?thesis by (simp add: getitem_def)
  next
    case w: (Some width)
    show ?thesis
    proof (cases "cfg ''height''")
      case None
      with Cons.prems w show ?thesis by (simp add: getitem_def)
    next
      case h: (Some height)
      show ?thesis
      proof (cases "fst (evaluate (PyInt i) width height s)")
        case (Inl e)
        then have "evaluate (PyInt i) width height s = (Inl e, sleep (1 / 10) s)"
          using evaluate_session [of "PyInt i" width height s] by (simp add: prod_eq_iff)
        with Cons.prems w h evaluate_error_kinds [OF Inl] show ?thesis
          by (auto simp add: getitem_def)
      next
        case (Inr v)
        then have "evaluate (PyInt i) width height s = (Inr v, sleep (1 / 10) s)"
          using evaluate_session [of "PyInt i" width height s] by (simp add: prod_eq_iff)
        with Cons.prems w h Cons.IH [of "tune_report i v (sleep (1 / 10) s)"] show ?thesis
          by (simp add: getitem_def)
      qed
    qed
  qed
qed

lemma objective_KeyError:
  assumes "fst (objective cfg s) = Inl (KeyError k)"
  shows "k \<in> {''steps'', ''width'', ''height''} \<and> cfg k = None"
proof (cases "cfg ''steps''")
  case None
  with assms show ?thesis by (simp add: objective_def getitem_def)
next
  case (Some v)
  show ?thesis
  proof (cases v)
    case (PyInt n)
    with assms Some have "fst (objective_loop (py_range n) cfg s) = Inl (KeyError k)"
      by (simp add: objective_def getitem_def)
    from objective_loop_KeyError [OF this] show ?thesis by auto
  next
    case (PyFloat x)
    with assms Some show ?thesis by (simp add: objective_def getitem_def)
  next
    case (PyStr x)
    with assms Some show ?thesis by (simp add: objective_def getitem_def)
  qed
qed

text \<open>
  Claim C10. The choice list of \<open>activation\<close> has exactly one element, the single
  string \<open>relu, tanh\<close>, and is not the list of the two strings \<open>relu\<close> and \<open>tanh\<close>;
  so every value drawn from the list is that one string. \<open>objective\<close> never reads
  \<open>activation\<close>: whatever the key holds, also when it is absent, the result and every
  reported score are the same.
\<close>

theorem activation_single_choice:
  "map_of search_config ''activation'' = Some (Choice [PyStr ''relu, tanh''])
   \<and> length [PyStr ''relu, tanh''] = 1
   \<and> [PyStr ''relu, tanh''] \<noteq> [PyStr ''relu'', PyStr ''tanh'']
   \<and> (\<forall>cs v. map_of search_config ''activation'' = Some (Choice cs) \<and> v \<in> set cs
          \<longrightarrow> v = PyStr ''relu, tanh'')
   \<and> (\<forall>cfg a s. objective (cfg(''activation'' := a)) s = objective cfg s)"
  by (simp add: search_config_def objective_ignores)

text \<open>
  Claim C10 at the configuration \<open>cfg_a\<close>: with \<open>activation\<close> set to \<open>tanh\<close>, or
  removed, \<open>objective\<close> does the same as with \<open>relu, tanh\<close>.
\<close>

theorem activation_single_choice_witness:
  "objective (cfg_a(''activation'' := Some (PyStr ''tanh''))) fresh_session =
     objective cfg_a fresh_session
   \<and> objective (cfg_a(''activation'' := None)) fresh_session = objective cfg_a fresh_session"
  using activation_single_choice by simp

section \<open>The declared search spaces\<close>

text \<open>
  Claim C7. In the second run the search algorithm holds \<open>space\<close>, that is \<open>height\<close>
  continuous over \<open>[-10, 10]\<close> with precision \<open>0.01\<close>, \<open>width\<close> discrete over
  \<open>[0, 10]\<close> with order, and \<open>layers\<close> a grid over \<open>[4, 8, 16]\<close>; the config passed
  to \<open>tune.run\<close> holds \<open>steps\<close> only, so no parameter is declared in both.
\<close>

theorem space_withheld_from_config:
  "zo_dim_dict (run_search_alg second_run) = Some space
   \<and> map_of space ''height'' = Some (Continuous (- 10) 10 (1 / 100))
   \<and> map_of space ''width'' = Some (Discrete 0 10 True)
   \<and> map_of space ''layers'' = Some (Grid [PyInt 4, PyInt 8, PyInt 16])
   \<and> map fst space = [''height'', ''width'', ''layers'']
   \<and> map fst (run_config second_run) = [''steps'']
   \<and> set (map fst (run_config second_run)) \<inter> set (map fst space) = {}"
  by (simp add: second_run_def algo_space_def space_def)

text \<open>
  Claim C8. In either run, each of the parameters \<open>objective\<close> references, \<open>steps\<close>,
  \<open>width\<close> and \<open>height\<close>, is declared in the run's inline config or in the
  \<open>dim_dict\<close> of its search algorithm. So a configuration that holds every declared
  parameter holds these three, and \<open>objective\<close> raises no KeyError on it. These three
  are all that \<open>objective\<close> references: a KeyError it raises on any configuration names
  one of them, missing there.
\<close>

theorem referenced_parameters_declared:
  assumes "run = first_run \<or> run = second_run"
    and "set (map fst (run_config run)) \<union> set (map fst (declared_dims run)) \<subseteq> dom cfg"
  shows "{''steps'', ''width'', ''height''} \<subseteq> dom cfg
         \<and> (\<forall>k\<in>{''steps'', ''width'', ''height''}.
               k \<in> set (map fst (run_config run)) \<or> k \<in> set (map fst (declared_dims run)))
         \<and> (\<forall>k s. fst (objective cfg s) \<noteq> Inl (KeyError k))
         \<and> (\<forall>c k s. fst (objective c s) = Inl (KeyError k)
               \<longrightarrow> k \<in> {''steps'', ''width'', ''height''} \<and> k \<notin> dom c)"
proof -
  have decl: "\<forall>k\<in>{''steps'', ''width'', ''height''}.
               k \<in> set (map fst (run_config run)) \<or> k \<in> set (map fst (declared_dims run))"
  proof (rule disjE [OF assms(1)])
    assume "run = first_run"
    then show ?thesis
      by (simp add: first_run_def declared_dims_def algo_def search_config_def)
  next
    assume "run = second_run"
    then show ?thesis
      by (simp add: second_run_def declared_dims_def algo_space_def space_def)
  qed
  with assms(2) have sub: "{''steps'', ''width'', ''height''} \<subseteq> dom cfg" by blast
  have refs: "\<forall>c k s. fst (objective c s) = Inl (KeyError k)
               \<longrightarrow> k \<in> {''steps'', ''width'', ''height''} \<and> k \<notin> dom c"
    using objective_KeyError by (simp add: domIff)
  have nokey: "\<forall>k s. fst (objective cfg s) \<noteq> Inl (KeyError k)"
  proof (intro allI notI)
    fix k s assume "fst (objective cfg s) = Inl (KeyError k)"
    from objective_KeyError [OF this] have "k \<in> {''steps'', ''width'', ''height''}" "cfg k = None"
      by simp_all
    with sub show False by (auto simp: domIff)
  qed
  show ?thesis
    using decl sub refs nokey by (intro conjI)
qed

text \<open>
  Claim C8 at the second run and the configuration \<open>cfg_b\<close>.
\<close>

theorem referenced_parameters_declared_witness:
  "{''steps'', ''width'', ''height''} \<subseteq> dom cfg_b
   \<and> (\<forall>k s. fst (objective cfg_b s) \<noteq> Inl (KeyError k))"
proof -
  have "set (map fst (run_config second_run)) \<union> set (map fst (declared_dims second_run))
          \<subseteq> dom cfg_b"
    by (simp add: second_run_def declared_dims_def algo_space_def space_def cfg_b_def)
  from referenced_parameters_declared [of second_run cfg_b, OF _ this] show ?thesis by simp
qed

text \<open>
  Claim C5. The inline search space of the first run declares exactly \<open>steps\<close> fixed at
  \<open>100\<close>, \<open>width\<close> as an integer range over \<open>[0, 10]\<close>, \<open>height\<close> as a quantized
  uniform range over \<open>[-10, 10]\<close> with step \<open>0.01\<close> and \<open>activation\<close> as a categorical
  choice; every configuration sampled from it has an integer \<open>width\<close> in \<open>[0, 10]\<close> and
  a \<open>height\<close> in \<open>[-10, 10]\<close> that is a whole multiple of \<open>0.01\<close>.
\<close>

theorem sampled_within_bounds:
  assumes "sampled_from search_config cfg"
  shows "run_config first_run = search_config
         \<and> map fst search_config = [''steps'', ''width'', ''height'', ''activation'']
         \<and> map_of search_config ''steps'' = Some (Constant (PyInt 100))
         \<and> map_of search_config ''width'' = Some (Randint 0 10)
         \<and> map_of search_config ''height'' = Some (Quniform (- 10) 10 (1 / 100))
         \<and> (\<exists>cs. map_of search_config ''activation'' = Some (Choice cs))
         \<and> cfg ''steps'' = Some (PyInt 100)
         \<and> (\<exists>w. cfg ''width'' = Some (PyInt w) \<and> 0 \<le> w \<and> w \<le> 10)
         \<and> (\<exists>h. cfg ''height'' = Some (PyFloat h) \<and> - 10 \<le> h \<and> h \<le> 10
                \<and> of_int \<lfloor>h * 100\<rfloor> = h * 100)"
proof -
  have decl: "run_config first_run = search_config
         \<and> map fst search_config = [''steps'', ''width'', ''height'', ''activation'']
         \<and> map_of search_config ''steps'' = Some (Constant (PyInt 100))
         \<and> map_of search_config ''width'' = Some (Randint 0 10)
         \<and> map_of search_config ''height'' = Some (Quniform (- 10) 10 (1 / 100))
         \<and> (\<exists>cs. map_of search_config ''activation'' = Some (Choice cs))"
    by (simp add: first_run_def search_config_def)
  have vals: "cfg ''steps'' = Some (PyInt 100)
         \<and> (\<exists>w. cfg ''width'' = Some (PyInt w) \<and> 0 \<le> w \<and> w \<le> 10)
         \<and> (\<exists>h. cfg ''height'' = Some (PyFloat h) \<and> - 10 \<le> h \<and> h \<le> 10
                \<and> of_int \<lfloor>h * 100\<rfloor> = h * 100)"
    using assms
    by (auto simp add: sampled_from_def search_config_def assigns_def
        split: option.splits pyval.splits)
  from conjI [OF decl vals] show ?thesis by (simp only: conj_assoc)
qed

text \<open>
  Claim C5 at the configuration \<open>cfg_a\<close>, which is sampled from \<open>search_config\<close>.
\<close>

theorem sampled_within_bounds_witness:
  "run_config first_run = search_config
   \<and> map fst search_config = [''steps'', ''width'', ''height'', ''activation'']
   \<and> map_of search_config ''steps'' = Some (Constant (PyInt 100))
   \<and> map_of search_config ''width'' = Some (Randint 0 10)
   \<and> map_of search_config ''height'' = Some (Quniform (- 10) 10 (1 / 100))
   \<and> (\<exists>cs. map_of search_config ''activation'' = Some (Choice cs))
   \<and> cfg_a ''steps'' = Some (PyInt 100)
   \<and> (\<exists>w. cfg_a ''width'' = Some (PyInt w) \<and> 0 \<le> w \<and> w \<le> 10)
   \<and> (\<exists>h. cfg_a ''height'' = Some (PyFloat h) \<and> - 10 \<le> h \<and> h \<le> 10
          \<and> of_int \<lfloor>h * 100\<rfloor> = h * 100)"
proof -
  have "sampled_from search_config cfg_a"
    by (auto simp add: sampled_from_def search_config_def cfg_a_def assigns_def)
  from sampled_within_bounds [OF this] show ?thesis .
qed

section \<open>The best configuration of a run\<close>

text \<open>
  In either run a resolved configuration has \<open>steps = 100\<close>, an integer \<open>width\<close> in
  \<open>[0, 10]\<close> and a float \<open>height\<close> in \<open>[-10, 10]\<close>.
\<close>

lemma resolved_values:
  assumes "run = first_run \<or> run = second_run" and "resolved run cfg"
  shows "\<exists>w h. cfg ''steps'' = Some (PyInt 100)
          \<and> cfg ''width'' = Some (PyInt w) \<and> 0 \<le> w \<and> w \<le> 10
          \<and> cfg ''height'' = Some (PyFloat h) \<and> - 10 \<le> h \<and> h \<le> 10"
  using assms
  by (auto simp add: resolved_def first_run_def second_run_def declared_dims_def algo_def
      algo_space_def search_config_def space_def assigns_def
      split: option.splits pyval.splits)

text \<open>For a width that is not negative the score does not grow from one step to a later one.\<close>

lemma score_antimono:
  fixes w :: real
  assumes "0 \<le> w" and "0 \<le> i" and "i \<le> j"
  shows "inverse (1 / 10 + w * of_int j / 100) + h * (1 / 10)
          \<le> inverse (1 / 10 + w * of_int i / 100) + h * (1 / 10)"
proof -
  have "w * of_int i \<le> w * of_int j"
    using assms by (simp add: mult_left_mono)
  then have le: "1 / 10 + w * of_int i / 100 \<le> 1 / 10 + w * of_int j / 100"
    by (simp add: divide_right_mono)
  have "0 \<le> w * of_int i" using assms by simp
  then have pos: "0 < 1 / 10 + w * of_int i / 100"
    by (simp add: add_pos_nonneg)
  from le_imp_inverse_le [OF le pos] show ?thesis by simp
qed

text \<open>The trial of a configuration with numeric, non-negative width: its reports, all of them.\<close>

lemma run_trial_numeric:
  assumes "cfg ''steps'' = Some (PyInt n)"
    and "cfg ''width'' = Some width" and "as_number width = Inr w" and "0 \<le> w"
    and "cfg ''height'' = Some height" and "as_number height = Inr h"
  shows "run_trial cfg =
           \<lparr>trial_config = cfg,
            trial_results = map (\<lambda>i. \<lparr>iterations = i,
                 mean_loss = inverse (1 / 10 + w * of_int i / 100) + h * (1 / 10)\<rparr>) [0..n - 1],
            trial_error = None\<rparr>"
proof -
  have ev: "\<forall>i\<in>set (py_range n). fst (evaluate (PyInt i) width height fresh_session) =
               Inr (inverse (1 / 10 + w * of_int i / 100) + h * (1 / 10))"
  proof
    fix i assume "i \<in> set (py_range n)"
    then have "0 \<le> i" by (simp add: py_range_def)
    then have "0 \<le> w * of_int i / 100" using assms(4) by simp
    then have "1 / 10 + w * of_int i / 100 \<noteq> 0" by linarith
    then show "fst (evaluate (PyInt i) width height fresh_session) =
               Inr (inverse (1 / 10 + w * of_int i / 100) + h * (1 / 10))"
      using assms(3,6) by (simp add: evaluate_numeric)
  qed
  from objective_loop_ok [OF assms(2,5) ev, of fresh_session] assms(1) show ?thesis
    by (simp add: run_trial_def objective_def getitem_def py_range_def fresh_session_def)
qed

lemma last_upto: "i \<le> j \<Longrightarrow> last [i..j] = j"
  by (simp add: upto_rec2)

lemma trial_final_is_least:
  assumes "cfg ''steps'' = Some (PyInt n)" and "0 < n"
    and "cfg ''width'' = Some width" and "as_number width = Inr w" and "0 \<le> w"
    and "cfg ''height'' = Some height" and "as_number height = Inr h"
  shows "\<exists>v. last_result ''mean_loss'' (run_trial cfg) = Some v
           \<and> (\<forall>r\<in>set (trial_results (run_trial cfg)). v \<le> mean_loss r)"
proof -
  let ?sc = "\<lambda>i. inverse (1 / 10 + w * of_int i / 100) + h * (1 / 10)"
  let ?rep = "\<lambda>i. \<lparr>iterations = i, mean_loss = ?sc i\<rparr>"
  have rt: "trial_results (run_trial cfg) = map ?rep [0..n - 1]"
    using run_trial_numeric [OF assms(1,3,4,5,6,7)] by simp
  have ne: "[0..n - 1] \<noteq> []" using assms(2) by simp
  have "last (map ?rep [0..n - 1]) = ?rep (n - 1)"
    using ne assms(2) by (simp add: last_map last_upto)
  then have lr: "last_result ''mean_loss'' (run_trial cfg) = Some (?sc (n - 1))"
    using ne rt by (simp add: last_result_def metric_of_def)
  have "\<forall>r\<in>set (trial_results (run_trial cfg)). ?sc (n - 1) \<le> mean_loss r"
  proof
    fix r assume "r \<in> set (trial_results (run_trial cfg))"
    then obtain i where i: "0 \<le> i" "i \<le> n - 1" "r = ?rep i"
      using rt by auto
    from score_antimono [OF assms(5) i(1,2), of h] i(3) show "?sc (n - 1) \<le> mean_loss r"
      by simp
  qed
  with lr show ?thesis by blast
qed

text \<open>The selection: in mode \<open>min\<close> the best trial is one of the trials, with the least score.\<close>

lemma best_trial_min:
  assumes "best_trial m ''min'' ts = Some b"
  shows "b \<in> set ts \<and> (\<exists>vb. last_result m b = Some vb \<and>
           (\<forall>t\<in>set ts. \<forall>v. last_result m t = Some v \<longrightarrow> vb \<le> v))"
  using assms
proof (induction ts arbitrary: b)
  case Nil
  then show ?case by simp
next
  case (Cons t ts)
  show ?case
  proof (cases "last_result m t")
    case None
    with Cons show ?thesis by auto
  next
    case (Some v)
    show ?thesis
    proof (cases "best_trial m ''min'' ts")
      case None
      have "\<forall>u\<in>set ts. last_result m u = None"
        using None
      proof (induction ts)
        case Nil
        show ?case by simp
      next
        case (Cons u us)
        then show ?case by (auto split: option.splits if_splits)
      qed
      with Cons.prems Some None show ?thesis by auto
    next
      case (Some b')
      from Cons.IH [OF Some] obtain vb where
        b': "b' \<in> set ts" "last_result m b' = Some vb"
        "\<forall>u\<in>set ts. \<forall>x. last_result m u = Some x \<longrightarrow> vb \<le> x" by blast
      show ?thesis
        using Cons.prems \<open>last_result m t = Some v\<close> Some b'
        by (auto simp: better_def split: if_splits)
    qed
  qed
qed

lemma best_trial_exists:
  assumes "t \<in> set ts" and "last_result m t = Some v"
  shows "\<exists>b. best_trial m mode ts = Some b"
  using assms
  by (induction ts) (auto split: option.splits)

text \<open>The score of such a trial is the score of its final step, and it keeps its configuration.\<close>

lemma trial_final_score:
  assumes "cfg ''steps'' = Some (PyInt n)" and "0 < n"
    and "cfg ''width'' = Some width" and "as_number width = Inr w" and "0 \<le> w"
    and "cfg ''height'' = Some height" and "as_number height = Inr h"
  shows "last_result ''mean_loss'' (run_trial cfg) =
           Some (inverse (1 / 10 + w * of_int (n - 1) / 100) + h * (1 / 10))"
proof -
  let ?rep = "\<lambda>i. \<lparr>iterations = i,
                     mean_loss = inverse (1 / 10 + w * of_int i / 100) + h * (1 / 10)\<rparr>"
  have rt: "trial_results (run_trial cfg) = map ?rep [0..n - 1]"
    using run_trial_numeric [OF assms(1,3,4,5,6,7)] by simp
  have ne: "[0..n - 1] \<noteq> []" using assms(2) by simp
  have "last (map ?rep [0..n - 1]) = ?rep (n - 1)"
    using ne assms(2) by (simp add: last_map last_upto)
  then show ?thesis
    using ne rt by (simp add: last_result_def metric_of_def)
qed

lemma trial_config_run_trial: "trial_config (run_trial cfg) = cfg"
  by (simp add: run_trial_def split: prod.splits)

text \<open>
  Either run, over a non-empty list of resolved configurations, has a best trial; its
  score is at most every \<open>mean_loss\<close> any trial reported.
\<close>

lemma run_has_best:
  assumes "run = first_run \<or> run = second_run"
    and "\<forall>cfg\<in>set proposals. resolved run cfg" and "proposals \<noteq> []"
  shows "\<exists>b vb. best_trial (run_metric run) (run_mode run) (map run_trial proposals) = Some b
           \<and> b \<in> set (map run_trial proposals)
           \<and> last_result ''mean_loss'' b = Some vb
           \<and> (\<forall>t\<in>set (map run_trial proposals). \<forall>r\<in>set (trial_results t). vb \<le> mean_loss r)"
proof -
  have mm: "run_metric run = ''mean_loss''" "run_mode run = ''min''"
    using assms(1) by (auto simp: first_run_def second_run_def)
  have each: "\<exists>v. last_result ''mean_loss'' (run_trial cfg) = Some v
           \<and> (\<forall>r\<in>set (trial_results (run_trial cfg)). v \<le> mean_loss r)"
    if "cfg \<in> set proposals" for cfg
  proof -
    from that assms(2) have "resolved run cfg" by blast
    from resolved_values [OF assms(1) this] obtain w h where
      v: "cfg ''steps'' = Some (PyInt 100)" "cfg ''width'' = Some (PyInt w)" "0 \<le> w"
         "cfg ''height'' = Some (PyFloat h)" by blast
    show ?thesis
      using trial_final_is_least [OF v(1) _ v(2) _ _ v(4), of "of_int w" h] v(3) by simp
  qed
  obtain c where c: "c \<in> set proposals" using assms(3) by (cases proposals) auto
  from each [OF c] obtain v0 where "last_result ''mean_loss'' (run_trial c) = Some v0" by blast
  with c best_trial_exists [of "run_trial c" "map run_trial proposals" "''mean_loss''" v0 "''min''"]
  obtain b where b: "best_trial ''mean_loss'' ''min'' (map run_trial proposals) = Some b"
    by auto
  from best_trial_min [OF b] obtain vb where
    vb: "b \<in> set (map run_trial proposals)" "last_result ''mean_loss'' b = Some vb"
        "\<forall>t\<in>set (map run_trial proposals). \<forall>v. last_result ''mean_loss'' t = Some v \<longrightarrow> vb \<le> v"
    by blast
  have "\<forall>t\<in>set (map run_trial proposals). \<forall>r\<in>set (trial_results t). vb \<le> mean_loss r"
  proof (intro ballI)
    fix t r assume t: "t \<in> set (map run_trial proposals)" and r: "r \<in> set (trial_results t)"
    from t obtain cfg where cfg: "cfg \<in> set proposals" "t = run_trial cfg" by auto
    from each [OF cfg(1)] cfg(2) obtain v where
      v: "last_result ''mean_loss'' t = Some v" "\<forall>r\<in>set (trial_results t). v \<le> mean_loss r"
      by blast
    from vb(3) t v(1) have "vb \<le> v" by blast
    also from v(2) r have "v \<le> mean_loss r" by blast
    finally show "vb \<le> mean_loss r" .
  qed
  with b vb(1,2) mm show ?thesis by simp
qed


text \<open>
  Claim C3. After either run, with metric \<open>mean_loss\<close> and mode \<open>min\<close>, over any
  non-empty list of sampled (resolved) configurations, each run as one trial of the
  deterministic \<open>objective\<close>: a best configuration is returned, it is the configuration of
  one of the trials, and its score is at most every \<open>mean_loss\<close> that any trial of the
  run reported.
\<close>

theorem best_config_is_least:
  assumes "run = first_run \<or> run = second_run"
    and "\<forall>cfg\<in>set proposals. resolved run cfg" and "proposals \<noteq> []"
  shows "\<exists>b vb. best_trial (run_metric run) (run_mode run) (map run_trial proposals) = Some b
           \<and> best_config run (map run_trial proposals) = Some (trial_config b)
           \<and> b \<in> set (map run_trial proposals)
           \<and> last_result ''mean_loss'' b = Some vb
           \<and> (\<forall>t\<in>set (map run_trial proposals). \<forall>r\<in>set (trial_results t). vb \<le> mean_loss r)"
proof -
  from run_has_best [OF assms] obtain b vb where
    b: "best_trial (run_metric run) (run_mode run) (map run_trial proposals) = Some b"
       "b \<in> set (map run_trial proposals)" "last_result ''mean_loss'' b = Some vb"
       "\<forall>t\<in>set (map run_trial proposals). \<forall>r\<in>set (trial_results t). vb \<le> mean_loss r"
    by (elim exE conjE)
  have "best_config run (map run_trial proposals) = Some (trial_config b)"
    using b(1) by (simp add: best_config_def)
  with b show ?thesis by (intro exI [of _ b] exI [of _ vb] conjI)
qed

text \<open>
  Claim C3 at the first run with two sampled configurations, \<open>cfg_a\<close> with final score
  \<open>100 / 307 + 1 / 4 = 707 / 1228\<close> and \<open>cfg_c\<close> with final score
  \<open>1 / 10 - 1 = - 9 / 10\<close>. The selection has to compare them: in mode \<open>min\<close> the best
  configuration is \<open>cfg_c\<close>, the second of the list, while mode \<open>max\<close> would take
  \<open>cfg_a\<close>; and \<open>- 9 / 10\<close> is at most each of the 200 reported scores.
\<close>

theorem best_config_is_least_witness:
  "\<exists>b vb. best_trial ''mean_loss'' ''min'' (map run_trial [cfg_a, cfg_c]) = Some b
     \<and> b = run_trial cfg_c
     \<and> best_config first_run (map run_trial [cfg_a, cfg_c]) = Some cfg_c
     \<and> last_result ''mean_loss'' b = Some vb
     \<and> vb = - 9 / 10
     \<and> last_result ''mean_loss'' (run_trial cfg_a) = Some (707 / 1228)
     \<and> best_trial ''mean_loss'' ''max'' (map run_trial [cfg_a, cfg_c]) = Some (run_trial cfg_a)
     \<and> (\<forall>t\<in>set (map run_trial [cfg_a, cfg_c]). \<forall>r\<in>set (trial_results t). vb \<le> mean_loss r)"
proof -
  have ra: "resolved first_run cfg_a"
    by (auto simp add: resolved_def first_run_def declared_dims_def algo_def search_config_def
        cfg_a_def assigns_def)
  have rc: "resolved first_run cfg_c"
    by (auto simp add: resolved_def first_run_def declared_dims_def algo_def search_config_def
        cfg_c_def assigns_def)
  have la: "last_result ''mean_loss'' (run_trial cfg_a) = Some (707 / 1228)"
    using trial_final_score [of cfg_a 100 "PyInt 3" 3 "PyFloat (5 / 2)" "5 / 2"]
    by (simp add: cfg_a_def)
  have lc: "last_result ''mean_loss'' (run_trial cfg_c) = Some (- 9 / 10)"
    using trial_final_score [of cfg_c 100 "PyInt 10" 10 "PyFloat (- 10)" "- 10"]
    by (simp add: cfg_c_def)
  have bmin: "best_trial ''mean_loss'' ''min'' (map run_trial [cfg_a, cfg_c])
                = Some (run_trial cfg_c)"
    by (simp add: la lc better_def)
  have bmax: "best_trial ''mean_loss'' ''max'' (map run_trial [cfg_a, cfg_c])
                = Some (run_trial cfg_a)"
    by (simp add: la lc better_def)
  have run: "first_run = first_run \<or> first_run = second_run" by simp
  have all: "\<forall>cfg\<in>set [cfg_a, cfg_c]. resolved first_run cfg" using ra rc by simp
  have ne: "[cfg_a, cfg_c] \<noteq> []" by simp
  have mm: "run_metric first_run = ''mean_loss''" "run_mode first_run = ''min''"
    by (simp_all add: first_run_def)
  from best_config_is_least [OF run all ne] obtain b vb where
    b: "best_trial (run_metric first_run) (run_mode first_run) (map run_trial [cfg_a, cfg_c]) = Some b"
       "best_config first_run (map run_trial [cfg_a, cfg_c]) = Some (trial_config b)"
       "last_result ''mean_loss'' b = Some vb"
       "\<forall>t\<in>set (map run_trial [cfg_a, cfg_c]). \<forall>r\<in>set (trial_results t). vb \<le> mean_loss r"
    by (elim exE conjE)
  have beq: "b = run_trial cfg_c" using b(1) bmin by (simp only: mm option.inject)
  have veq: "vb = - 9 / 10" using b(3) lc beq by simp
  have bc: "best_config first_run (map run_trial [cfg_a, cfg_c]) = Some cfg_c"
    using b(2) beq by (simp add: trial_config_run_trial)
  show ?thesis
    using bmin beq bc b(3) veq la bmax b(4)
    by (intro exI [of _ b] exI [of _ vb] conjI) (simp_all only:)
qed

end
